theory Spec2Isabelle
  imports Main
begin

section \<open>Python values used by autopxd\<close>

text \<open>
  Exceptions are values: every \<open>raise\<close>, failed \<open>assert\<close>, missing attribute and
  out-of-range index of the source is an \<open>Inl\<close> result of the model.
\<close>

datatype error = AssertionError | AttributeError | IndexError | TypeError | ValueError

text \<open>\<open>sep.join(xs)\<close> on a list of strings.\<close>

fun join :: "string \<Rightarrow> string list \<Rightarrow> string" where
  "join sep [] = []"
| "join sep [x] = x"
| "join sep (x # y # ys) = x @ sep @ join sep (y # ys)"

text \<open>
  \<open>s.split()\<close> with no argument: the maximal runs of non-whitespace characters.
  Whitespace is what Python 3 treats as such in the ASCII range (tab, line feed,
  vertical tab, form feed, carriage return, the four separators 0x1C..0x1F, space).
\<close>

definition is_space :: "char \<Rightarrow> bool" where
  "is_space c = (c \<in> set [CHR 0x09, CHR 0x0A, CHR 0x0B, CHR 0x0C, CHR 0x0D,
                           CHR 0x1C, CHR 0x1D, CHR 0x1E, CHR 0x1F, CHR 0x20])"

fun split_acc :: "string \<Rightarrow> string \<Rightarrow> string list" where
  "split_acc w [] = (if w = [] then [] else [w])"
| "split_acc w (c # cs) =
     (if is_space c then (if w = [] then split_acc [] cs else w # split_acc [] cs)
      else split_acc (w @ [c]) cs)"

definition split :: "string \<Rightarrow> string list" where
  "split s = split_acc [] s"

text \<open>
  \<open>int(s)\<close> on a string, base ten: surrounding whitespace is dropped, one sign is
  allowed, then digits, with single underscores allowed between digits. Anything else
  (\<open>0x10\<close>, \<open>5U\<close>, \<open>'a'\<close>, \<open>1.5\<close>) raises ValueError.
\<close>

definition is_digit :: "char \<Rightarrow> bool" where
  "is_digit c = (c \<in> set ''0123456789'')"

definition digit_val :: "char \<Rightarrow> int" where
  "digit_val c = int (of_char c) - 48"

definition strip :: "string \<Rightarrow> string" where
  "strip s = rev (dropWhile is_space (rev (dropWhile is_space s)))"

fun digits_ok :: "bool \<Rightarrow> string \<Rightarrow> bool" where
  "digits_ok prev_digit [] = prev_digit"
| "digits_ok prev_digit (c # cs) =
     (if is_digit c then digits_ok True cs
      else if c = CHR ''_'' \<and> prev_digit then digits_ok False cs
      else False)"

definition digits_value :: "string \<Rightarrow> int" where
  "digits_value ds = foldl (\<lambda>acc c. 10 * acc + digit_val c) 0 (filter is_digit ds)"

definition py_int :: "string \<Rightarrow> error + int" where
  "py_int s =
     (case strip s of
        [] \<Rightarrow> Inl ValueError
      | c # cs \<Rightarrow>
          (let neg = (c = CHR ''-'');
               ds = (if c = CHR ''-'' \<or> c = CHR ''+'' then cs else c # cs)
           in if digits_ok False ds
              then Inr (if neg then - digits_value ds else digits_value ds)
              else Inl ValueError))"

text \<open>\<open>str(n)\<close> on an integer.\<close>

definition digit_char :: "nat \<Rightarrow> char" where
  "digit_char d = char_of (48 + d)"

fun str_nat :: "nat \<Rightarrow> string" where
  "str_nat n = (if n < 10 then [digit_char n] else str_nat (n div 10) @ [digit_char (n mod 10)])"

definition str_int :: "int \<Rightarrow> string" where
  "str_int i = (if i < 0 then CHR ''-'' # str_nat (nat (- i)) else str_nat (nat i))"

text \<open>
  Python list indexing \<open>xs[i]\<close> with a possibly negative index, and the slice
  \<open>xs[:-2]\<close>.
\<close>

definition py_index :: "'a list \<Rightarrow> int \<Rightarrow> error + 'a" where
  "py_index xs i =
     (if 0 \<le> i \<and> i < int (length xs) then Inr (xs ! nat i)
      else if i < 0 \<and> - i \<le> int (length xs) then Inr (xs ! nat (int (length xs) + i))
      else Inl IndexError)"

definition drop_last2 :: "'a list \<Rightarrow> 'a list" where
  "drop_last2 xs = take (length xs - 2) xs"

text \<open>A name is falsy when it is \<open>None\<close> or the empty string.\<close>

definition truthy :: "string option \<Rightarrow> bool" where
  "truthy n = (case n of None \<Rightarrow> False | Some x \<Rightarrow> x \<noteq> [])"

definition or_empty :: "string option \<Rightarrow> string" where
  "or_empty n = (case n of None \<Rightarrow> [] | Some x \<Rightarrow> x)"

text \<open>\<open>'{0}'.format(x)\<close> on a value that is a string or \<open>None\<close>.\<close>

definition fmt :: "string option \<Rightarrow> string" where
  "fmt n = (case n of None \<Rightarrow> ''None'' | Some x \<Rightarrow> x)"

section \<open>The output node model (class PxdNode and its subclasses)\<close>

text \<open>
  The elements of the lists on \<open>decl_stack\<close>. The source puts three kinds of Python
  values there: strings (a type name that has no declarator around it yet), \<open>None\<close>
  (the name of an anonymous enum), and PxdNode objects. \<open>Ptr\<close> and \<open>Array\<close> are
  subclasses of \<open>IdentifierType\<close> in the source, which \<open>isinstance_IdentifierType\<close>
  records. A \<open>Function\<close> name is the \<open>name\<close> of another node and so may be \<open>None\<close>.
\<close>

datatype pxd =
    PyStr string
  | PyNone
  | IdentifierType string string
  | Function string "string option" "pxd list"
  | Ptr pxd
  | Array pxd "string list"
  | Type pxd
  | Block string "pxd list" string string
  | Enum "string option" "string list" string

definition indent :: string where
  "indent = ''    ''"

fun isinstance_IdentifierType :: "pxd \<Rightarrow> bool" where
  "isinstance_IdentifierType (IdentifierType n t) = True"
| "isinstance_IdentifierType (Ptr x) = True"
| "isinstance_IdentifierType (Array x ds) = True"
| "isinstance_IdentifierType x = False"

fun isinstance_str :: "pxd \<Rightarrow> bool" where
  "isinstance_str (PyStr x) = True"
| "isinstance_str x = False"

text \<open>
  The attribute \<open>name\<close>: a field of IdentifierType, Function, Block and Enum, a
  property of Ptr and Array, absent elsewhere.
\<close>

fun name_of :: "pxd \<Rightarrow> error + string option" where
  "name_of (IdentifierType n t) = Inr (Some n)"
| "name_of (Function rt n args) = Inr n"
| "name_of (Ptr x) = name_of x"
| "name_of (Array x ds) =
     (case name_of x of
        Inl e \<Rightarrow> Inl e
      | Inr n \<Rightarrow>
          if ds \<noteq> [] then
            (case n of
               None \<Rightarrow> Inl TypeError
             | Some nm \<Rightarrow> Inr (Some (nm @ ''['' @ join '']['' ds @ '']'')))
          else Inr n)"
| "name_of (Block n fs k st) = Inr (Some n)"
| "name_of (Enum n items st) = Inr n"
| "name_of (PyStr x) = Inl AttributeError"
| "name_of PyNone = Inl AttributeError"
| "name_of (Type x) = Inl AttributeError"

text \<open>The attribute \<open>type_name\<close>: only IdentifierType, Ptr and Array have it.\<close>

fun type_name_of :: "pxd \<Rightarrow> error + string" where
  "type_name_of (IdentifierType n t) = Inr t"
| "type_name_of (Ptr x) =
     (case type_name_of x of Inl e \<Rightarrow> Inl e | Inr t \<Rightarrow> Inr (t @ ''*''))"
| "type_name_of (Array x ds) = type_name_of x"
| "type_name_of x = Inl AttributeError"

text \<open>
  \<open>IdentifierType.lines\<close>, which Ptr and Array inherit: it reads \<open>self.name\<close>
  first, then formats \<open>self.type_name\<close> and \<open>self.name\<close>.
\<close>

definition IdentifierType_lines :: "pxd \<Rightarrow> error + string list" where
  "IdentifierType_lines x =
     (case name_of x of
        Inl e \<Rightarrow> Inl e
      | Inr n \<Rightarrow>
          (case type_name_of x of
             Inl e \<Rightarrow> Inl e
           | Inr t \<Rightarrow> if truthy n then Inr [t @ '' '' @ fmt n] else Inr [t]))"

text \<open>
  \<open>lines\<close> of every class; \<open>argstr_loop\<close> is the loop of \<open>Function.argstr\<close>
  (each argument must render as exactly one line) and \<open>fields_loop\<close> the loop of
  \<open>Block.lines\<close>.
\<close>

fun lines :: "pxd \<Rightarrow> error + string list"
  and argstr_loop :: "pxd list \<Rightarrow> error + string list"
  and fields_loop :: "pxd list \<Rightarrow> error + string list" where
  "lines (PyStr x) = Inl AttributeError"
| "lines PyNone = Inl AttributeError"
| "lines (IdentifierType n t) = IdentifierType_lines (IdentifierType n t)"
| "lines (Function rt n args) =
     (case argstr_loop args of
        Inl e \<Rightarrow> Inl e
      | Inr l \<Rightarrow> Inr [rt @ '' '' @ fmt n @ ''('' @ join '', '' l @ '')''])"
| "lines (Ptr x) =
     (case x of
        Function rt n args \<Rightarrow>
          (case argstr_loop args of
             Inl e \<Rightarrow> Inl e
           | Inr l \<Rightarrow> Inr [rt @ '' (*'' @ fmt n @ '')('' @ join '', '' l @ '')''])
      | _ \<Rightarrow> IdentifierType_lines (Ptr x))"
| "lines (Array x ds) = IdentifierType_lines (Array x ds)"
| "lines (Type x) =
     (case lines x of
        Inl e \<Rightarrow> Inl e
      | Inr [] \<Rightarrow> Inl IndexError
      | Inr (l # ls) \<Rightarrow> Inr ((''ctypedef '' @ l) # ls))"
| "lines (Block n fs k st) =
     (case fields_loop fs of
        Inl e \<Rightarrow> Inl e
      | Inr ls \<Rightarrow> Inr ((st @ '' '' @ k @ '' '' @ n @ '':'') # ls))"
| "lines (Enum n items st) =
     Inr ((if truthy n then st @ '' enum '' @ fmt n @ '':'' else ''cdef enum:'')
          # map (\<lambda>item. indent @ item) items)"
| "argstr_loop [] = Inr []"
| "argstr_loop (arg # args) =
     (case lines arg of
        Inl e \<Rightarrow> Inl e
      | Inr ls \<Rightarrow>
          if length ls \<noteq> 1 then Inl AssertionError
          else (case argstr_loop args of Inl e \<Rightarrow> Inl e | Inr l \<Rightarrow> Inr (hd ls # l)))"
| "fields_loop [] = Inr []"
| "fields_loop (field # fields) =
     (case lines field of
        Inl e \<Rightarrow> Inl e
      | Inr ls \<Rightarrow>
          (case fields_loop fields of
             Inl e \<Rightarrow> Inl e
           | Inr rest \<Rightarrow> Inr (map (\<lambda>line. indent @ line) ls @ rest)))"

text \<open>\<open>str(x)\<close>: a string is itself, \<open>None\<close> prints as None, a PxdNode joins its lines.\<close>

definition newline :: string where
  "newline = [CHR 0x0A]"

definition py_str :: "pxd \<Rightarrow> error + string" where
  "py_str x =
     (case x of
        PyStr s \<Rightarrow> Inr s
      | PyNone \<Rightarrow> Inr ''None''
      | _ \<Rightarrow> (case lines x of Inl e \<Rightarrow> Inl e | Inr ls \<Rightarrow> Inr (join newline ls)))"

section \<open>The input tree (pycparser's c_ast)\<close>

text \<open>
  The node classes of the parser library that a declaration tree is made of, with the
  attributes the visitor reads. The children of a node, in the order
  \<open>generic_visit\<close> walks them, are: \<open>ext\<close> for FileAST; \<open>type\<close>, \<open>init\<close>,
  \<open>bitsize\<close> for Decl; \<open>type\<close> for Typedef, TypeDecl, PtrDecl and Typename;
  \<open>type\<close>, \<open>dim\<close> for ArrayDecl; \<open>args\<close>, \<open>type\<close> for FuncDecl; \<open>params\<close>
  for ParamList; \<open>decls\<close> for Struct and Union. An Enum holds its enumerators as
  pairs of a name and an optional value expression (\<open>values\<close> is \<open>None\<close> for an
  enum without a body); the visitor never descends into them. \<open>c_ast_Other\<close> stands
  for every expression class that has children but none of the attributes
  \<open>name\<close>, \<open>declname\<close>, \<open>value\<close> (BinaryOp, UnaryOp, Cast, InitList, ...).
\<close>

datatype node =
    c_ast_FileAST "node list"
  | c_ast_Decl "string option" node "node option" "node option"
  | c_ast_Typedef "string option" node
  | c_ast_TypeDecl "string option" node
  | c_ast_PtrDecl node
  | c_ast_ArrayDecl node "node option"
  | c_ast_FuncDecl "node option" node
  | c_ast_ParamList "node list"
  | c_ast_Typename "string option" node
  | c_ast_EllipsisParam
  | c_ast_IdentifierType "string list"
  | c_ast_Struct "string option" "node list option"
  | c_ast_Union "string option" "node list option"
  | c_ast_Enum "string option" "(string \<times> node option) list option"
  | c_ast_Constant string string
  | c_ast_ID string
  | c_ast_Other "node list"

definition opt_list :: "'a option \<Rightarrow> 'a list" where
  "opt_list x = (case x of None \<Rightarrow> [] | Some y \<Rightarrow> [y])"

fun is_TypeDecl :: "node \<Rightarrow> bool" where
  "is_TypeDecl (c_ast_TypeDecl n t) = True"
| "is_TypeDecl x = False"

fun is_Typedef :: "node \<Rightarrow> bool" where
  "is_Typedef (c_ast_Typedef n t) = True"
| "is_Typedef x = False"

fun is_PtrDecl :: "node \<Rightarrow> bool" where
  "is_PtrDecl (c_ast_PtrDecl t) = True"
| "is_PtrDecl x = False"

text \<open>
  What \<open>path_name\<close> reads off an ancestor: \<open>declname\<close> when the node has that
  attribute and it is truthy, else \<open>name\<close> when the node has that attribute and it is
  truthy, else nothing.
\<close>

fun path_component :: "node \<Rightarrow> string list" where
  "path_component (c_ast_TypeDecl declname t) = (if truthy declname then [or_empty declname] else [])"
| "path_component (c_ast_Decl name t i b) = (if truthy name then [or_empty name] else [])"
| "path_component (c_ast_Typedef name t) = (if truthy name then [or_empty name] else [])"
| "path_component (c_ast_Typename name t) = (if truthy name then [or_empty name] else [])"
| "path_component (c_ast_Struct name ds) = (if truthy name then [or_empty name] else [])"
| "path_component (c_ast_Union name ds) = (if truthy name then [or_empty name] else [])"
| "path_component (c_ast_Enum name vs) = (if truthy name then [or_empty name] else [])"
| "path_component (c_ast_ID name) = (if name \<noteq> [] then [name] else [])"
| "path_component x = []"

text \<open>
  The dimension text of \<open>visit_ArrayDecl\<close>: the \<open>value\<close> of a node that has one (a
  Constant), else the recorded constant of a node whose \<open>name\<close> is a key of
  \<open>constants\<close>, else the empty string.
\<close>

fun name_attr :: "node \<Rightarrow> string option" where
  "name_attr (c_ast_Decl name t i b) = name"
| "name_attr (c_ast_Typedef name t) = name"
| "name_attr (c_ast_Typename name t) = name"
| "name_attr (c_ast_Struct name ds) = name"
| "name_attr (c_ast_Union name ds) = name"
| "name_attr (c_ast_Enum name vs) = name"
| "name_attr (c_ast_ID name) = Some name"
| "name_attr x = None"

definition dim_text :: "node option \<Rightarrow> (string \<rightharpoonup> int) \<Rightarrow> string" where
  "dim_text dim consts =
     (case dim of
        None \<Rightarrow> []
      | Some (c_ast_Constant ty v) \<Rightarrow> v
      | Some d \<Rightarrow>
          (case name_attr d of
             None \<Rightarrow> []
           | Some n \<Rightarrow> (case consts n of None \<Rightarrow> [] | Some v \<Rightarrow> str_int v)))"

definition STDINT_DECLARATIONS :: "string list" where
  "STDINT_DECLARATIONS =
     [''int8_t'', ''uint8_t'', ''int16_t'', ''uint16_t'',
      ''int32_t'', ''uint32_t'', ''int64_t'', ''uint64_t'', ''int_least8_t'',
      ''uint_least8_t'', ''int_least16_t'', ''uint_least16_t'', ''int_least32_t'',
      ''uint_least32_t'', ''int_least64_t'', ''uint_least64_t'', ''int_fast8_t'',
      ''uint_fast8_t'', ''int_fast16_t'', ''uint_fast16_t'', ''int_fast32_t'',
      ''uint_fast32_t'', ''int_fast64_t'', ''uint_fast64_t'', ''intptr_t'', ''uintptr_t'',
      ''intmax_t'', ''uintmax_t'']"

section \<open>The resolver state (class AutoPxd)\<close>

record state =
  hdrname :: string
  decl_stack :: "pxd list list"
  visit_stack :: "node list"
  stdint_declarations :: "string list"
  dimension_stack :: "string list"
  constants :: "string \<rightharpoonup> int"

text \<open>
  \<open>__init__\<close> assigns every attribute of the object it is given; \<open>AutoPxd hdrname\<close>
  is the object a translation run starts from.
\<close>

definition AutoPxd_init :: "state \<Rightarrow> string \<Rightarrow> state" where
  "AutoPxd_init self h =
     self\<lparr>hdrname := h, decl_stack := [[]], visit_stack := [],
           stdint_declarations := [], dimension_stack := [], constants := Map.empty\<rparr>"

definition AutoPxd :: "string \<Rightarrow> state" where
  "AutoPxd h =
     \<lparr>hdrname = h, decl_stack = [[]], visit_stack = [],
      stdint_declarations = [], dimension_stack = [], constants = Map.empty\<rparr>"

text \<open>\<open>self.append(node)\<close>: onto the innermost list of \<open>decl_stack\<close>.\<close>

definition self_append :: "pxd \<Rightarrow> state \<Rightarrow> error + state" where
  "self_append x s =
     (if decl_stack s = [] then Inl IndexError
      else Inr (s\<lparr>decl_stack := butlast (decl_stack s) @ [last (decl_stack s) @ [x]]\<rparr>))"

text \<open>\<open>self.decl_stack[0].append(node)\<close>: onto the top-level list.\<close>

definition append_top :: "pxd \<Rightarrow> state \<Rightarrow> error + state" where
  "append_top x s =
     (case decl_stack s of
        [] \<Rightarrow> Inl IndexError
      | f # fs \<Rightarrow> Inr (s\<lparr>decl_stack := (f @ [x]) # fs\<rparr>))"

text \<open>\<open>child_of(type, index)\<close> with an index: \<open>isinstance(self.visit_stack[index], type)\<close>.\<close>

definition child_of :: "(node \<Rightarrow> bool) \<Rightarrow> int \<Rightarrow> state \<Rightarrow> error + bool" where
  "child_of is_type index s =
     (case py_index (visit_stack s) index of Inl e \<Rightarrow> Inl e | Inr n \<Rightarrow> Inr (is_type n))"

text \<open>\<open>path_name(tag)\<close>: the names of the ancestors in \<open>visit_stack[:-2]\<close>.\<close>

definition path_name :: "string option \<Rightarrow> state \<Rightarrow> string" where
  "path_name tag s =
     (let names = concat (map path_component (drop_last2 (visit_stack s)))
      in case tag of
           None \<Rightarrow> join ''_'' names
         | Some t \<Rightarrow> ''_'' @ join ''_'' names @ ''_'' @ t)"

text \<open>
  The two context flags that \<open>visit_Block\<close> and \<open>visit_Enum\<close> compute first:
  \<open>type_decl = child_of(TypeDecl, -2)\<close> and
  \<open>type_def = type_decl and child_of(Typedef, -3)\<close> (the second lookup only when the
  first is true).
\<close>

definition type_flags :: "state \<Rightarrow> error + (bool \<times> bool)" where
  "type_flags s =
     (case child_of is_TypeDecl (- 2) s of
        Inl e \<Rightarrow> Inl e
      | Inr type_decl \<Rightarrow>
          if type_decl then
            (case child_of is_Typedef (- 3) s of
               Inl e \<Rightarrow> Inl e
             | Inr type_def \<Rightarrow> Inr (True, type_def))
          else Inr (False, False))"

section \<open>The handlers of the resolver\<close>

text \<open>
  Each \<open>visit_X\<close> method that starts with \<open>decls = self.collect(node)\<close> is split at
  that call: the recursive walk is in \<open>super_visit\<close> below, and the rest of the
  method, a function of the collected list, is the \<open>visit_X_tail\<close> here.
\<close>

definition register_stdint :: "string list \<Rightarrow> string \<Rightarrow> string list" where
  "register_stdint acc name =
     (if name \<in> set STDINT_DECLARATIONS \<and> name \<notin> set acc then acc @ [name] else acc)"

definition visit_IdentifierType :: "string list \<Rightarrow> state \<Rightarrow> error + state" where
  "visit_IdentifierType names s =
     self_append (PyStr (join '' '' names))
       (s\<lparr>stdint_declarations := foldl register_stdint (stdint_declarations s) names\<rparr>)"

text \<open>
  The loop of \<open>visit_Enum\<close> over the enumerators: \<open>value\<close> starts at 0; an
  enumerator whose value node has a \<open>value\<close> attribute (a Constant) sets it to
  \<open>int\<close> of that text, any other enumerator adds one; then the enumerator is recorded
  with \<open>value\<close>.
\<close>

fun enumerators_loop ::
  "(string \<times> node option) list \<Rightarrow> int \<Rightarrow> (string \<rightharpoonup> int) \<Rightarrow> error + (string \<rightharpoonup> int)" where
  "enumerators_loop [] val consts = Inr consts"
| "enumerators_loop ((name, v) # rest) val consts =
     (case v of
        Some (c_ast_Constant ty lit) \<Rightarrow>
          (case py_int lit of
             Inl e \<Rightarrow> Inl e
           | Inr i \<Rightarrow> enumerators_loop rest i (consts(name \<mapsto> i)))
      | _ \<Rightarrow> enumerators_loop rest (val + 1) (consts(name \<mapsto> val + 1)))"

definition py_name :: "string option \<Rightarrow> pxd" where
  "py_name n = (case n of None \<Rightarrow> PyNone | Some x \<Rightarrow> PyStr x)"

definition visit_Enum ::
  "string option \<Rightarrow> (string \<times> node option) list option \<Rightarrow> state \<Rightarrow> error + state" where
  "visit_Enum node_name vals s =
     (let items = (case vals of None \<Rightarrow> [] | Some es \<Rightarrow> map fst es) in
      case (case vals of None \<Rightarrow> Inr (constants s)
                       | Some es \<Rightarrow> enumerators_loop es 0 (constants s)) of
        Inl e \<Rightarrow> Inl e
      | Inr consts \<Rightarrow>
          (let s1 = s\<lparr>constants := consts\<rparr> in
           case type_flags s1 of
             Inl e \<Rightarrow> Inl e
           | Inr (type_decl, type_def) \<Rightarrow>
               (let name =
                      (if \<not> truthy node_name then
                         (if type_def then Some (path_name None s1)
                          else if type_def then Some (path_name (Some ''e'') s1)
                          else node_name)
                       else node_name)
                in if node_name = None \<and> type_def \<and> items \<noteq> []
                   then append_top (Enum name items ''ctypedef'') s1
                   else (case (if items \<noteq> [] then append_top (Enum name items ''cdef'') s1
                               else Inr s1) of
                           Inl e \<Rightarrow> Inl e
                         | Inr s2 \<Rightarrow>
                             if type_decl then self_append (py_name name) s2 else Inr s2))))"

text \<open>
  \<open>visit_Block\<close> in three parts: the name (before the fields are walked), the branch
  for a node without \<open>decls\<close> (a reference), and the part after \<open>collect\<close>.
\<close>

definition Block_name :: "string \<Rightarrow> string option \<Rightarrow> bool \<Rightarrow> state \<Rightarrow> string" where
  "Block_name kind node_name type_def s =
     (if \<not> truthy node_name then
        (if type_def then path_name None s else path_name (Some (take 1 kind)) s)
      else or_empty node_name)"

definition Block_reference :: "bool \<Rightarrow> string \<Rightarrow> state \<Rightarrow> error + state" where
  "Block_reference type_decl name s =
     (if type_decl then self_append (PyStr name) s else Inr s)"

definition visit_Block_tail ::
  "string option \<Rightarrow> string \<Rightarrow> bool \<times> bool \<Rightarrow> string \<Rightarrow> pxd list \<Rightarrow> state \<Rightarrow> error + state" where
  "visit_Block_tail node_name kind flags name flds s =
     (if snd flags \<and> node_name = None
      then append_top (Block name flds kind ''ctypedef'') s
      else (case append_top (Block name flds kind ''cdef'') s of
              Inl e \<Rightarrow> Inl e
            | Inr s1 \<Rightarrow> if fst flags then self_append (PyStr name) s1 else Inr s1))"

definition named_decl :: "string option \<Rightarrow> pxd \<Rightarrow> pxd" where
  "named_decl n d = (case d of PyStr t \<Rightarrow> IdentifierType (or_empty n) t | _ \<Rightarrow> d)"

definition visit_TypeDecl_tail :: "string option \<Rightarrow> pxd list \<Rightarrow> state \<Rightarrow> error + state" where
  "visit_TypeDecl_tail declname decls s =
     (if decls = [] then Inr s
      else if length decls \<noteq> 1 then Inl AssertionError
      else self_append (named_decl declname (hd decls)) s)"

definition visit_Decl_tail :: "string option \<Rightarrow> pxd list \<Rightarrow> state \<Rightarrow> error + state" where
  "visit_Decl_tail name decls s =
     (if decls = [] then Inr s
      else if length decls \<noteq> 1 then Inl AssertionError
      else self_append (named_decl name (hd decls)) s)"

definition visit_PtrDecl_tail :: "pxd list \<Rightarrow> state \<Rightarrow> error + state" where
  "visit_PtrDecl_tail decls s =
     (if length decls \<noteq> 1 then Inl AssertionError
      else (case hd decls of
              PyStr t \<Rightarrow> self_append (PyStr t) s
            | d \<Rightarrow> self_append (Ptr d) s))"

definition visit_ArrayDecl_tail :: "pxd list \<Rightarrow> state \<Rightarrow> error + state" where
  "visit_ArrayDecl_tail decls s =
     (if length decls \<noteq> 1 then Inl AssertionError
      else (case self_append (Array (hd decls) (dimension_stack s)) s of
              Inl e \<Rightarrow> Inl e
            | Inr s1 \<Rightarrow> Inr (s1\<lparr>dimension_stack := []\<rparr>)))"

definition visit_Typedef_tail :: "pxd list \<Rightarrow> state \<Rightarrow> error + state" where
  "visit_Typedef_tail decls s =
     (if length decls \<noteq> 1 then Inr s
      else (case py_str (hd decls) of
              Inl e \<Rightarrow> Inl e
            | Inr text \<Rightarrow>
                (case py_index (split text) 0 of
                   Inl e \<Rightarrow> Inl e
                 | Inr n0 \<Rightarrow>
                     (case py_index (split text) 1 of
                        Inl e \<Rightarrow> Inl e
                      | Inr n1 \<Rightarrow>
                          if n0 \<noteq> n1 then append_top (Type (hd decls)) s else Inr s))))"

text \<open>
  In \<open>visit_FuncDecl\<close>: the test that replaces a lone \<open>void\<close> parameter by no
  parameters, and the test \<open>child_of(PtrDecl, -2) and not child_of(Typedef, -3)\<close>.
\<close>

definition elide_void :: "pxd list \<Rightarrow> error + pxd list" where
  "elide_void args =
     (if length args = 1 \<and> isinstance_IdentifierType (hd args) then
        (case type_name_of (hd args) of
           Inl e \<Rightarrow> Inl e
         | Inr t \<Rightarrow> Inr (if t = ''void'' then [] else args))
      else Inr args)"

definition pointer_context :: "state \<Rightarrow> error + bool" where
  "pointer_context s =
     (case child_of is_PtrDecl (- 2) s of
        Inl e \<Rightarrow> Inl e
      | Inr p \<Rightarrow>
          if p then
            (case child_of is_Typedef (- 3) s of Inl e \<Rightarrow> Inl e | Inr t \<Rightarrow> Inr (\<not> t))
          else Inr False)"

definition visit_FuncDecl_tail :: "pxd list \<Rightarrow> state \<Rightarrow> error + state" where
  "visit_FuncDecl_tail decls s =
     (case py_index decls (- 1) of
        Inl e \<Rightarrow> Inl e
      | Inr d \<Rightarrow>
     (case type_name_of d of
        Inl e \<Rightarrow> Inl e
      | Inr return_type \<Rightarrow>
     (case name_of d of
        Inl e \<Rightarrow> Inl e
      | Inr fname \<Rightarrow>
     (case elide_void (butlast decls) of
        Inl e \<Rightarrow> Inl e
      | Inr args \<Rightarrow>
     (case pointer_context s of
        Inl e \<Rightarrow> Inl e
      | Inr True \<Rightarrow>
          (let name = path_name (Some ''ft'') s in
           case append_top (Type (Ptr (Function return_type (Some name) args))) s of
             Inl e \<Rightarrow> Inl e
           | Inr s1 \<Rightarrow> self_append (PyStr name) s1)
      | Inr False \<Rightarrow> self_append (Function return_type fname args) s)))))"

text \<open>
  \<open>collect\<close> pushes a new list on \<open>decl_stack\<close>, walks the children, pops and
  returns the list. Its assertion compares the popped list with the pushed one; they
  are the same object exactly when the stack is as high as it was after the push, which
  is what \<open>pop_frame\<close> checks against the height \<open>h\<close> before the push.
\<close>

definition push_frame :: "state \<Rightarrow> state" where
  "push_frame s = s\<lparr>decl_stack := decl_stack s @ [[]]\<rparr>"

definition pop_frame :: "nat \<Rightarrow> state \<Rightarrow> error + (pxd list \<times> state)" where
  "pop_frame h s =
     (if decl_stack s = [] then Inl IndexError
      else if length (decl_stack s) \<noteq> Suc h then Inl AssertionError
      else Inr (last (decl_stack s), s\<lparr>decl_stack := butlast (decl_stack s)\<rparr>))"

definition collect_end :: "nat \<Rightarrow> error + state \<Rightarrow> error + (pxd list \<times> state)" where
  "collect_end h r = (case r of Inl e \<Rightarrow> Inl e | Inr s \<Rightarrow> pop_frame h s)"

text \<open>
  The end of \<open>AutoPxd.visit\<close>: pop the visit stack and assert that the popped node is
  the visited one.
\<close>

definition visit_pop :: "node \<Rightarrow> state \<Rightarrow> error + state" where
  "visit_pop node s =
     (if visit_stack s = [] then Inl IndexError
      else if last (visit_stack s) = node
           then Inr (s\<lparr>visit_stack := butlast (visit_stack s)\<rparr>)
           else Inl AssertionError)"

section \<open>The walk\<close>

text \<open>
  \<open>visit\<close> is \<open>AutoPxd.visit\<close>; \<open>super_visit\<close> is \<open>NodeVisitor.visit\<close>, which
  calls the method \<open>visit_\<close>\<^emph>\<open>Class\<close> when the resolver has one and
  \<open>generic_visit\<close> otherwise; \<open>generic_visit_list\<close> is the loop of
  \<open>generic_visit\<close> over the children.
\<close>

function visit :: "node \<Rightarrow> state \<Rightarrow> error + state"
  and super_visit :: "node \<Rightarrow> state \<Rightarrow> error + state"
  and generic_visit_list :: "node list \<Rightarrow> state \<Rightarrow> error + state" where
  "visit node s =
     (case super_visit node (s\<lparr>visit_stack := visit_stack s @ [node]\<rparr>) of
        Inl e \<Rightarrow> Inl e
      | Inr s1 \<Rightarrow> visit_pop node s1)"
| "generic_visit_list [] s = Inr s"
| "generic_visit_list (c # cs) s =
     (case visit c s of Inl e \<Rightarrow> Inl e | Inr s1 \<Rightarrow> generic_visit_list cs s1)"
| "super_visit (c_ast_FileAST ext) s = generic_visit_list ext s"
| "super_visit (c_ast_ParamList params) s = generic_visit_list params s"
| "super_visit (c_ast_Typename name ty) s = generic_visit_list [ty] s"
| "super_visit (c_ast_Other cs) s = generic_visit_list cs s"
| "super_visit c_ast_EllipsisParam s = Inr s"
| "super_visit (c_ast_Constant ty v) s = Inr s"
| "super_visit (c_ast_ID name) s = Inr s"
| "super_visit (c_ast_IdentifierType names) s = visit_IdentifierType names s"
| "super_visit (c_ast_Enum name vals) s = visit_Enum name vals s"
| "super_visit (c_ast_Decl name ty init bitsize) s =
     (case collect_end (length (decl_stack s))
             (generic_visit_list (ty # opt_list init @ opt_list bitsize) (push_frame s)) of
        Inl e \<Rightarrow> Inl e
      | Inr (decls, s1) \<Rightarrow> visit_Decl_tail name decls s1)"
| "super_visit (c_ast_Typedef name ty) s =
     (case collect_end (length (decl_stack s)) (generic_visit_list [ty] (push_frame s)) of
        Inl e \<Rightarrow> Inl e
      | Inr (decls, s1) \<Rightarrow> visit_Typedef_tail decls s1)"
| "super_visit (c_ast_TypeDecl declname ty) s =
     (case collect_end (length (decl_stack s)) (generic_visit_list [ty] (push_frame s)) of
        Inl e \<Rightarrow> Inl e
      | Inr (decls, s1) \<Rightarrow> visit_TypeDecl_tail declname decls s1)"
| "super_visit (c_ast_PtrDecl ty) s =
     (case collect_end (length (decl_stack s)) (generic_visit_list [ty] (push_frame s)) of
        Inl e \<Rightarrow> Inl e
      | Inr (decls, s1) \<Rightarrow> visit_PtrDecl_tail decls s1)"
| "super_visit (c_ast_ArrayDecl ty dim) s =
     (let s0 = s\<lparr>dimension_stack := dimension_stack s @ [dim_text dim (constants s)]\<rparr> in
      case collect_end (length (decl_stack s0))
             (generic_visit_list (ty # opt_list dim) (push_frame s0)) of
        Inl e \<Rightarrow> Inl e
      | Inr (decls, s1) \<Rightarrow> visit_ArrayDecl_tail decls s1)"
| "super_visit (c_ast_FuncDecl args ty) s =
     (case collect_end (length (decl_stack s))
             (generic_visit_list (opt_list args @ [ty]) (push_frame s)) of
        Inl e \<Rightarrow> Inl e
      | Inr (decls, s1) \<Rightarrow> visit_FuncDecl_tail decls s1)"
| "super_visit (c_ast_Struct name decls) s =
     (case type_flags s of
        Inl e \<Rightarrow> Inl e
      | Inr flags \<Rightarrow>
          (let nm = Block_name ''struct'' name (snd flags) s in
           case decls of
             None \<Rightarrow> Block_reference (fst flags) nm s
           | Some [] \<Rightarrow> Block_reference (fst flags) nm s
           | Some (d # ds) \<Rightarrow>
               (case collect_end (length (decl_stack s))
                       (generic_visit_list (d # ds) (push_frame s)) of
                  Inl e \<Rightarrow> Inl e
                | Inr (flds, s1) \<Rightarrow> visit_Block_tail name ''struct'' flags nm flds s1)))"
| "super_visit (c_ast_Union name decls) s =
     (case type_flags s of
        Inl e \<Rightarrow> Inl e
      | Inr flags \<Rightarrow>
          (let nm = Block_name ''union'' name (snd flags) s in
           case decls of
             None \<Rightarrow> Block_reference (fst flags) nm s
           | Some [] \<Rightarrow> Block_reference (fst flags) nm s
           | Some (d # ds) \<Rightarrow>
               (case collect_end (length (decl_stack s))
                       (generic_visit_list (d # ds) (push_frame s)) of
                  Inl e \<Rightarrow> Inl e
                | Inr (flds, s1) \<Rightarrow> visit_Block_tail name ''union'' flags nm flds s1)))"
  by pat_completeness auto

termination
  by (relation "measures [
        (\<lambda>x. case x of Inl (n, s) \<Rightarrow> size n
                     | Inr (Inl (n, s)) \<Rightarrow> size n
                     | Inr (Inr (cs, s)) \<Rightarrow> sum_list (map size cs)),
        (\<lambda>x. case x of Inl (n, s) \<Rightarrow> 1 | Inr (Inl (n, s)) \<Rightarrow> 0 | Inr (Inr (cs, s)) \<Rightarrow> 2),
        (\<lambda>x. case x of Inl (n, s) \<Rightarrow> 0 | Inr (Inl (n, s)) \<Rightarrow> 0
                     | Inr (Inr (cs, s)) \<Rightarrow> length cs)]")
     (auto simp: opt_list_def size_list_conv_sum_list split: option.splits)

section \<open>The emitter\<close>

text \<open>
  \<open>AutoPxd.lines\<close>: the header line, an empty line, then every top-level declaration
  indented and followed by an empty line. \<open>top_lines\<close> is its loop.
\<close>

fun top_lines :: "pxd list \<Rightarrow> error + string list" where
  "top_lines [] = Inr []"
| "top_lines (decl # decls) =
     (case lines decl of
        Inl e \<Rightarrow> Inl e
      | Inr ls \<Rightarrow>
          (case top_lines decls of
             Inl e \<Rightarrow> Inl e
           | Inr rest \<Rightarrow> Inr (map (\<lambda>line. indent @ line) ls @ [[]] @ rest)))"

definition AutoPxd_lines :: "state \<Rightarrow> error + string list" where
  "AutoPxd_lines s =
     (case py_index (decl_stack s) 0 of
        Inl e \<Rightarrow> Inl e
      | Inr decls \<Rightarrow>
          (case top_lines decls of
             Inl e \<Rightarrow> Inl e
           | Inr ls \<Rightarrow>
               Inr ([''cdef extern from '' @ [CHR 0x22] @ hdrname s @ [CHR 0x22] @ '':'', []]
                    @ ls)))"

definition AutoPxd_str :: "state \<Rightarrow> error + string" where
  "AutoPxd_str s = (case AutoPxd_lines s of Inl e \<Rightarrow> Inl e | Inr ls \<Rightarrow> Inr (join newline ls))"

text \<open>
  The part of \<open>translate\<close> after parsing: \<open>run\<close> walks the tree with a given
  resolver object and builds the text; \<open>translate_ast\<close> does so with the object that
  \<open>AutoPxd(hdrname)\<close> constructs.
\<close>

definition import_line :: "string list \<Rightarrow> string" where
  "import_line names =
     (if names \<noteq> []
      then ''from libc.stdint cimport '' @ join '', '' names @ newline @ newline
      else [])"

definition run :: "state \<Rightarrow> node \<Rightarrow> error + string" where
  "run p ast =
     (case visit ast p of
        Inl e \<Rightarrow> Inl e
      | Inr p1 \<Rightarrow>
          (case AutoPxd_str p1 of
             Inl e \<Rightarrow> Inl e
           | Inr body \<Rightarrow> Inr (import_line (stdint_declarations p1) @ body)))"

definition translate_ast :: "node \<Rightarrow> string \<Rightarrow> error + string" where
  "translate_ast ast h = run (AutoPxd h) ast"

section \<open>Example inputs\<close>

text \<open>The tree of \<^verbatim>\<open>typedef struct { int x; } foo_t;\<close>.\<close>

definition typedef_foo_t :: node where
  "typedef_foo_t =
     c_ast_FileAST
       [c_ast_Typedef (Some ''foo_t'')
          (c_ast_TypeDecl (Some ''foo_t'')
             (c_ast_Struct None
                (Some [c_ast_Decl (Some ''x'')
                         (c_ast_TypeDecl (Some ''x'') (c_ast_IdentifierType [''int'']))
                         None None])))]"

section \<open>Evaluation\<close>

lemmas eval_defs =
  is_space_def split_def strip_def py_int_def digits_value_def digit_val_def is_digit_def
  digit_char_def str_int_def py_index_def drop_last2_def truthy_def or_empty_def fmt_def
  indent_def IdentifierType_lines_def newline_def py_str_def opt_list_def dim_text_def
  STDINT_DECLARATIONS_def AutoPxd_def self_append_def append_top_def child_of_def
  path_name_def type_flags_def register_stdint_def visit_IdentifierType_def py_name_def
  visit_Enum_def Block_name_def Block_reference_def visit_Block_tail_def named_decl_def
  visit_TypeDecl_tail_def visit_Decl_tail_def visit_PtrDecl_tail_def visit_ArrayDecl_tail_def
  visit_Typedef_tail_def elide_void_def pointer_context_def visit_FuncDecl_tail_def
  push_frame_def pop_frame_def collect_end_def visit_pop_def AutoPxd_lines_def AutoPxd_str_def
  import_line_def run_def translate_ast_def

section \<open>Round-trip naming of a typedef'd anonymous struct\<close>

text \<open>
  Claim C3. For \<^verbatim>\<open>typedef struct { int x; } foo_t;\<close> the resolver leaves exactly
  one top-level entry, the block of the struct; its name is the typedef's own name
  \<open>foo_t\<close> with no tag; there is no \<open>Type\<close> (alias) entry beside it; and the
  generated text is the header line followed by that one block.
\<close>

theorem typedef_anonymous_struct_one_block:
  "map_sum id decl_stack (visit typedef_foo_t (AutoPxd h)) =
     Inr [[Block ''foo_t'' [IdentifierType ''x'' ''int''] ''struct'' ''ctypedef'']]
   \<and> translate_ast typedef_foo_t h =
     Inr (''cdef extern from '' @ [CHR 0x22] @ h @ [CHR 0x22] @ '':'' @ newline @ newline
          @ ''    ctypedef struct foo_t:'' @ newline @ ''        int x'' @ newline)"
  by (simp add: typedef_foo_t_def eval_defs)

end
